theory Spec2Isabelle
  imports Main "HOL-Library.Sublist"
begin

section \<open>Python values, exceptions and the outside world\<close>

text \<open>
  The parser of \<^verbatim>\<open>netdiff/parsers/base.py\<close> handles untyped Python values: the data
  reference may be a dict, a string or anything else, and the metadata attributes are
  \<^verbatim>\<open>None\<close> or strings. A dict is an association list, which keeps the insertion order
  of an \<^verbatim>\<open>OrderedDict\<close>; its keys are strings, as in a JSON document.
\<close>

datatype pyval =
    PNone
  | PBool bool
  | PInt int
  | PStr string
  | PList "pyval list"
  | PDict "(string \<times> pyval) list"

text \<open>Truth value of a Python object, as tested by \<^verbatim>\<open>if version:\<close>.\<close>

fun truthy :: "pyval \<Rightarrow> bool" where
  "truthy PNone = False"
| "truthy (PBool b) = b"
| "truthy (PInt n) = (n \<noteq> 0)"
| "truthy (PStr s) = (s \<noteq> [])"
| "truthy (PList xs) = (xs \<noteq> [])"
| "truthy (PDict kvs) = (kvs \<noteq> [])"

fun isinstance_dict :: "pyval \<Rightarrow> bool" where
  "isinstance_dict (PDict kvs) = True"
| "isinstance_dict v = False"

fun isinstance_string :: "pyval \<Rightarrow> bool" where
  "isinstance_string (PStr s) = True"
| "isinstance_string v = False"

text \<open>
  An exception raised by a library (\<^verbatim>\<open>requests\<close>, \<^verbatim>\<open>telnetlib\<close>, \<^verbatim>\<open>open\<close>) is kept as
  its description. The four exception classes of \<^verbatim>\<open>netdiff.exceptions\<close> keep their
  names; the specification calls \<^verbatim>\<open>ParserJsonError\<close> the format error and
  \<^verbatim>\<open>NetJsonError\<close> the schema validation error. The remaining constructors are the
  built-in exceptions that can leave the methods below uncaught.
\<close>

type_synonym exn = string

datatype error =
    ParserError string
  | ParserJsonError string
  | NetJsonError string
  | TopologyRetrievalError exn
  | NotImplementedError
  | AttributeError string
  | ValueError
  | TypeError
  | KeyError string
  | UnicodeDecodeError
  | LibraryError exn

text \<open>
  The result of \<^verbatim>\<open>urlparse.urlparse\<close>: the attributes the parser reads. Reading
  \<^verbatim>\<open>port\<close> can raise (\<open>Inl\<close>).
\<close>

record url =
  scheme :: string
  hostname :: pyval
  port :: "exn + pyval"
  geturl :: string

text \<open>An HTTP response and an open telnet session, as the remote end determines them.\<close>

record response =
  status_code :: int
  content :: string

record telnet =
  tn_write :: "string \<Rightarrow> exn option"
  tn_read_all :: "exn + string"

text \<open>
  The library calls whose result the code does not determine are parameters: one
  \<open>world\<close> fixes what each call returns or raises (\<open>Inl\<close>, or \<open>None\<close> for a decoder).
  \<^verbatim>\<open>urlparse.urlparse\<close> raises \<^verbatim>\<open>ValueError\<close> on a string it cannot split, such as one
  with an unmatched bracket in the host part: that is \<open>None\<close>.
\<close>

record world =
  urlparse :: "string \<Rightarrow> url option"
  requests_get :: "string \<Rightarrow> pyval \<Rightarrow> pyval \<Rightarrow> exn + response"
  telnet_open :: "pyval \<Rightarrow> pyval \<Rightarrow> pyval \<Rightarrow> exn + telnet"
  open_read :: "string \<Rightarrow> exn + string"
  bytes_decode :: "string \<Rightarrow> string option"
  json_loads :: "string \<Rightarrow> pyval option"
  json_dumps :: "pyval \<Rightarrow> (string \<times> pyval) list \<Rightarrow> exn + string"

text \<open>The calls made to the outside, in the order they are made.\<close>

datatype event =
    HttpGet string pyval pyval
  | TelnetOpen pyval pyval pyval
  | TelnetWrite string
  | TelnetReadAll
  | TelnetClose
  | FileRead string
  | JsonLoads pyval

type_synonym 'a io = "event list \<times> (error + 'a)"

definition io_bind :: "'a io \<Rightarrow> ('a \<Rightarrow> 'b io) \<Rightarrow> 'b io" where
  "io_bind m f =
     (case m of
        (tr, Inl e) \<Rightarrow> (tr, Inl e)
      | (tr, Inr x) \<Rightarrow> (case f x of (tr', r) \<Rightarrow> (tr @ tr', r)))"

section \<open>The parser object\<close>

text \<open>The networkx graph, as \<^verbatim>\<open>graph.nodes()\<close> and \<^verbatim>\<open>graph.edges(data=True)\<close> list it.\<close>

type_synonym edge = "pyval \<times> pyval \<times> (string \<times> pyval) list"

record graph =
  nodes :: "pyval list"
  edges :: "edge list"

text \<open>
  The attributes of a parser instance. \<open>original_data\<close> and \<open>graph\<close> are set after
  construction has started, so they may be absent (\<open>None\<close>).
\<close>

record parser =
  protocol :: pyval
  version :: pyval
  revision :: pyval
  metric :: pyval
  timeout :: pyval
  verify :: pyval
  original_data :: "pyval option"
  graph :: "graph option"

section \<open>Resolving the data reference\<close>

text \<open>\<^verbatim>\<open>str\<close> of an integer, used to format the HTTP status.\<close>

fun str_nat :: "nat \<Rightarrow> string" where
  "str_nat n =
     (if n < 10 then [''0123456789'' ! n]
      else str_nat (n div 10) @ [''0123456789'' ! (n mod 10)])"

declare str_nat.simps [simp del]

definition str_int :: "int \<Rightarrow> string" where
  "str_int i = (if i < 0 then CHR ''-'' # str_nat (nat (- i)) else str_nat (nat i))"

text \<open>\<^verbatim>\<open>bytes.decode('ascii')\<close>: fails on any byte above 127.\<close>

definition decode_ascii :: "string \<Rightarrow> string option" where
  "decode_ascii bs = (if list_all (\<lambda>c. (of_char c :: nat) < 128) bs then Some bs else None)"

definition crlf :: string where
  "crlf = [CHR 0x0D, CHR 0x0A]"

text \<open>\<^verbatim>\<open>_get_file\<close>\<close>

definition get_file :: "world \<Rightarrow> string \<Rightarrow> pyval io" where
  "get_file w path =
     ([FileRead path],
      case open_read w path of
        Inl e \<Rightarrow> Inl (TopologyRetrievalError e)
      | Inr text \<Rightarrow> Inr (PStr text))"

text \<open>\<^verbatim>\<open>_get_http\<close>\<close>

definition get_http :: "world \<Rightarrow> parser \<Rightarrow> url \<Rightarrow> pyval io" where
  "get_http w self u =
     ([HttpGet (geturl u) (verify self) (timeout self)],
      case requests_get w (geturl u) (verify self) (timeout self) of
        Inl e \<Rightarrow> Inl (TopologyRetrievalError e)
      | Inr resp \<Rightarrow>
          if status_code resp \<noteq> 200
          then Inl (TopologyRetrievalError
                 (''Expecting HTTP 200 ok, got '' @ str_int (status_code resp)))
          else (case bytes_decode w (content resp) of
                  None \<Rightarrow> Inl UnicodeDecodeError
                | Some text \<Rightarrow> Inr (PStr text)))"

text \<open>
  \<^verbatim>\<open>_get_telnet\<close>. Only the opening of the connection is inside the \<^verbatim>\<open>try\<close>. The
  method ends after \<^verbatim>\<open>tn.close()\<close> with no \<^verbatim>\<open>return\<close>, so its value is \<^verbatim>\<open>None\<close>.
\<close>

definition get_telnet :: "world \<Rightarrow> parser \<Rightarrow> url \<Rightarrow> pyval io" where
  "get_telnet w self u =
     (case port u of
        Inl e \<Rightarrow> ([], Inl (TopologyRetrievalError e))
      | Inr p \<Rightarrow>
          (case telnet_open w (hostname u) p (timeout self) of
             Inl e \<Rightarrow>
               ([TelnetOpen (hostname u) p (timeout self)], Inl (TopologyRetrievalError e))
           | Inr tn \<Rightarrow>
               (case tn_write tn crlf of
                  Some e \<Rightarrow>
                    ([TelnetOpen (hostname u) p (timeout self), TelnetWrite crlf],
                     Inl (LibraryError e))
                | None \<Rightarrow>
                    (case tn_read_all tn of
                       Inl e \<Rightarrow>
                         ([TelnetOpen (hostname u) p (timeout self), TelnetWrite crlf,
                           TelnetReadAll],
                          Inl (LibraryError e))
                     | Inr bs \<Rightarrow>
                         (case decode_ascii bs of
                            None \<Rightarrow>
                              ([TelnetOpen (hostname u) p (timeout self), TelnetWrite crlf,
                                TelnetReadAll],
                               Inl UnicodeDecodeError)
                          | Some data \<Rightarrow>
                              ([TelnetOpen (hostname u) p (timeout self), TelnetWrite crlf,
                                TelnetReadAll, TelnetClose],
                               Inr PNone))))))"

text \<open>
  The list of \<^verbatim>\<open>startswith\<close> tests of \<^verbatim>\<open>to_python\<close>; the last one is on \<^verbatim>\<open>data[1:3]\<close>.
\<close>

definition looks_like_path :: "string \<Rightarrow> bool" where
  "looks_like_path data =
     (prefix ''./'' data \<or>
      prefix ''../'' data \<or>
      prefix ''/'' data \<or>
      prefix [CHR ''.'', CHR 0x5C] data \<or>
      prefix [CHR ''.'', CHR ''.'', CHR 0x5C] data \<or>
      prefix [CHR 0x5C] data \<or>
      prefix [CHR '':'', CHR 0x5C] (take 2 (drop 1 data)))"

text \<open>
  The string branch of \<^verbatim>\<open>to_python\<close> up to the \<^verbatim>\<open>try\<close>: the value of \<^verbatim>\<open>data\<close> that
  reaches \<^verbatim>\<open>json.loads\<close>. The call of \<^verbatim>\<open>urlparse\<close> is outside every \<^verbatim>\<open>try\<close>, so its
  \<^verbatim>\<open>ValueError\<close> leaves \<^verbatim>\<open>to_python\<close> as it is. The two tests on the scheme are separate
  \<^verbatim>\<open>if\<close> statements.
\<close>

definition to_python_fetch :: "world \<Rightarrow> parser \<Rightarrow> string \<Rightarrow> pyval io" where
  "to_python_fetch w self s =
     (if sublist ''://'' s then
        (case urlparse w s of
           None \<Rightarrow> ([], Inl ValueError)
         | Some u \<Rightarrow>
             io_bind
               (if scheme u \<in> set [''http'', ''https''] then get_http w self u
                else ([], Inr (PStr s)))
               (\<lambda>data.
                  if scheme u = ''telnet'' then get_telnet w self u
                  else ([], Inr data)))
      else if looks_like_path s then get_file w s
      else ([], Inr (PStr s)))"

text \<open>
  \<^verbatim>\<open>json.loads\<close>: a \<^verbatim>\<open>ValueError\<close> on text that is not JSON, a \<^verbatim>\<open>TypeError\<close> on an
  argument that is not text.
\<close>

definition loads :: "world \<Rightarrow> pyval \<Rightarrow> pyval io" where
  "loads w data =
     ([JsonLoads data],
      case data of
        PStr s \<Rightarrow> (case json_loads w s of None \<Rightarrow> Inl ValueError | Some v \<Rightarrow> Inr v)
      | _ \<Rightarrow> Inl TypeError)"

definition to_python :: "world \<Rightarrow> parser \<Rightarrow> pyval \<Rightarrow> pyval io" where
  "to_python w self data =
     (case data of
        PDict d \<Rightarrow> ([], Inr data)
      | PStr s \<Rightarrow>
          io_bind (to_python_fetch w self s)
            (\<lambda>data'.
               case loads w data' of
                 (tr, r) \<Rightarrow>
                   (tr, if r = Inl ValueError
                        then Inl (ParserJsonError ''Could not decode JSON data'')
                        else r))
      | _ \<Rightarrow> ([], Inl (ParserError ''Could not find valid data to parse'')))"

text \<open>
  \<^verbatim>\<open>__init__\<close>. A parser class gives the class-level defaults and, for a subclass, the
  \<^verbatim>\<open>parse\<close> method; for \<^verbatim>\<open>BaseParser\<close> itself \<^verbatim>\<open>parse\<close> is not called.
\<close>

record parser_class =
  cls_protocol :: pyval
  cls_version :: pyval
  cls_revision :: pyval
  cls_metric :: pyval
  cls_parse :: "(parser \<Rightarrow> pyval \<Rightarrow> error + parser) option"

definition BaseParser :: parser_class where
  "BaseParser =
     \<lparr>cls_protocol = PNone, cls_version = PNone, cls_revision = PNone, cls_metric = PNone,
      cls_parse = None\<rparr>"

definition init ::
  "world \<Rightarrow> parser_class \<Rightarrow> pyval \<Rightarrow> pyval \<Rightarrow> pyval \<Rightarrow> pyval \<Rightarrow> pyval \<Rightarrow> pyval \<Rightarrow> parser io"
where
  "init w cls data version_arg revision_arg metric_arg timeout_arg verify_arg =
     (let self0 = \<lparr>protocol = cls_protocol cls, version = cls_version cls,
                    revision = cls_revision cls, metric = cls_metric cls,
                    timeout = PNone, verify = PNone,
                    original_data = None, graph = None\<rparr>;
          self1 = (if truthy version_arg then self0\<lparr>version := version_arg\<rparr> else self0);
          self2 = (if truthy revision_arg then self1\<lparr>revision := revision_arg\<rparr> else self1);
          self3 = (if truthy metric_arg then self2\<lparr>metric := metric_arg\<rparr> else self2);
          self4 = self3\<lparr>timeout := timeout_arg, verify := verify_arg\<rparr>
      in io_bind (to_python w self4 data)
           (\<lambda>d.
              let self5 = self4\<lparr>original_data := Some d\<rparr> in
              case cls_parse cls of
                None \<Rightarrow> ([], Inr self5)
              | Some parse \<Rightarrow> ([], parse self5 d)))"

section \<open>Serialization\<close>

text \<open>
  The loop of \<^verbatim>\<open>json\<close> over \<^verbatim>\<open>graph.edges(data=True)\<close>; \<^verbatim>\<open>link[2]['weight']\<close> raises
  \<^verbatim>\<open>KeyError\<close> on an edge with no weight.
\<close>

fun json_links :: "edge list \<Rightarrow> pyval list \<Rightarrow> error + pyval list" where
  "json_links [] links = Inr links"
| "json_links (link # rest) links =
     (case map_of (snd (snd link)) ''weight'' of
        None \<Rightarrow> Inl (KeyError ''weight'')
      | Some weight \<Rightarrow>
          json_links rest
            (links @ [PDict [(''source'', fst link),
                             (''target'', fst (snd link)),
                             (''weight'', weight)]]))"

text \<open>\<^verbatim>\<open>json(dict=False, **args)\<close>\<close>

definition json :: "world \<Rightarrow> parser \<Rightarrow> bool \<Rightarrow> (string \<times> pyval) list \<Rightarrow> error + pyval" where
  "json w self dict args =
     (case graph self of
        None \<Rightarrow> Inl NotImplementedError
      | Some g \<Rightarrow>
          if protocol self = PNone then Inl (NetJsonError ''protocol cannot be None'')
          else if version self = PNone then Inl (NetJsonError ''version cannot be None'')
          else if metric self = PNone \<and> protocol self \<noteq> PStr ''static''
          then Inl (NetJsonError ''metric cannot be None'')
          else
            (let nodes_list = map (\<lambda>node. PDict [(''id'', node)]) (nodes g) in
             case json_links (edges g) [] of
               Inl e \<Rightarrow> Inl e
             | Inr links \<Rightarrow>
                 (let data = PDict [(''type'', PStr ''NetworkGraph''),
                                    (''protocol'', protocol self),
                                    (''version'', version self),
                                    (''revision'', revision self),
                                    (''metric'', metric self),
                                    (''nodes'', PList nodes_list),
                                    (''links'', PList links)]
                  in if dict then Inr data
                     else (case json_dumps w data args of
                             Inl e \<Rightarrow> Inl (LibraryError e)
                           | Inr text \<Rightarrow> Inr (PStr text)))))"

text \<open>
  The keys of a dict in their order, and the entry that the loop of \<^verbatim>\<open>json\<close> appends
  for an edge: of no use to the code, they state what the document looks like.
\<close>

fun dict_keys :: "pyval \<Rightarrow> string list" where
  "dict_keys (PDict kvs) = map fst kvs"
| "dict_keys v = []"

definition link_entry :: "edge \<Rightarrow> pyval \<Rightarrow> bool" where
  "link_entry e l =
     (case map_of (snd (snd e)) ''weight'' of
        None \<Rightarrow> False
      | Some weight \<Rightarrow>
          l = PDict [(''source'', fst e), (''target'', fst (snd e)), (''weight'', weight)])"

definition has_weight :: "edge \<Rightarrow> bool" where
  "has_weight e = (map_of (snd (snd e)) ''weight'' \<noteq> None)"

section \<open>Difference of two topologies\<close>

text \<open>
  \<^verbatim>\<open>__sub__\<close> calls \<^verbatim>\<open>diff\<close> of \<^verbatim>\<open>netdiff/utils.py\<close>, which is not among the sources.
  The definitions of this section, up to \<open>diff\<close>, follow section 4.4 of the
  specification sentence by sentence. Lists keep the iteration order of the graph they
  are taken from.
\<close>

text \<open>
  Modelled from the spec: the weight of a link, part of the missing \<^verbatim>\<open>diff\<close> helper
  (a link is a triple of source, target and weight).
\<close>

definition edge_weight :: "edge \<Rightarrow> pyval option" where
  "edge_weight e = map_of (snd (snd e)) ''weight''"

text \<open>
  Modelled from the spec: the endpoint-pair identity on which the missing \<^verbatim>\<open>diff\<close>
  helper compares links (exact equality of source and of target).
\<close>

definition same_pair :: "edge \<Rightarrow> edge \<Rightarrow> bool" where
  "same_pair e e' = (fst e = fst e' \<and> fst (snd e) = fst (snd e'))"

text \<open>
  Modelled from the spec: for the missing \<^verbatim>\<open>diff\<close> helper, a link "whose (source, target)
  pair is absent" in the other graph.
\<close>

definition pair_absent :: "graph \<Rightarrow> edge \<Rightarrow> bool" where
  "pair_absent g e = (\<not> list_ex (same_pair e) (edges g))"

text \<open>
  Modelled from the spec: for the missing \<^verbatim>\<open>diff\<close> helper, a link whose pair is "present
  in both but with a different weight".
\<close>

definition weight_differs :: "graph \<Rightarrow> edge \<Rightarrow> bool" where
  "weight_differs g e =
     list_ex (\<lambda>e'. same_pair e e' \<and> edge_weight e' \<noteq> edge_weight e) (edges g)"

text \<open>
  Modelled from the spec: for the missing \<^verbatim>\<open>diff\<close> helper, an unchanged link: "same
  pair, same weight in both graphs".
\<close>

definition unchanged :: "graph \<Rightarrow> edge \<Rightarrow> bool" where
  "unchanged g e =
     list_ex (\<lambda>e'. same_pair e e' \<and> edge_weight e' = edge_weight e) (edges g)"

text \<open>
  Modelled from the spec: one direction of the missing \<^verbatim>\<open>diff\<close> helper, what graph \<open>b\<close>
  has and graph \<open>a\<close> has not. Nodes: those of \<open>b\<close> absent from \<open>a\<close>. Links: those of \<open>b\<close>
  whose pair is absent in \<open>a\<close> or present with a different weight, unchanged links being
  "excluded from both added/removed sets".
\<close>

definition make_diff :: "graph \<Rightarrow> graph \<Rightarrow> graph" where
  "make_diff a b =
     \<lparr>nodes = filter (\<lambda>n. n \<notin> set (nodes a)) (nodes b),
      edges = filter (\<lambda>e. (pair_absent a e \<or> weight_differs a e) \<and> \<not> unchanged a e)
                (edges b)\<rparr>"

text \<open>
  Modelled from the spec: the diff document of the missing \<^verbatim>\<open>diff\<close> helper, the metadata
  block plus the added and the removed nodes and links.
\<close>

record delta =
  delta_protocol :: pyval
  delta_version :: pyval
  delta_revision :: pyval
  delta_metric :: pyval
  added :: graph
  removed :: graph

text \<open>
  Modelled from the spec: the missing function \<^verbatim>\<open>diff(old, new)\<close> of \<^verbatim>\<open>netdiff/utils.py\<close>.
  Added is what \<open>new\<close> has and \<open>old\<close> has not, removed the converse, and the metadata are
  those of \<open>new\<close>. The specification takes both topologies as parsed; reading the
  \<^verbatim>\<open>graph\<close> attribute of a parser that has none is an \<open>AttributeError\<close>.
\<close>

definition diff :: "parser \<Rightarrow> parser \<Rightarrow> error + delta" where
  "diff old new =
     (case graph old of
        None \<Rightarrow> Inl (AttributeError ''graph'')
      | Some g_old \<Rightarrow>
          (case graph new of
             None \<Rightarrow> Inl (AttributeError ''graph'')
           | Some g_new \<Rightarrow>
               Inr \<lparr>delta_protocol = protocol new, delta_version = version new,
                    delta_revision = revision new, delta_metric = metric new,
                    added = make_diff g_old g_new,
                    removed = make_diff g_new g_old\<rparr>))"

text \<open>\<^verbatim>\<open>__sub__\<close>: \<^verbatim>\<open>self - other\<close> is \<^verbatim>\<open>diff(other, self)\<close>.\<close>

definition sub :: "parser \<Rightarrow> parser \<Rightarrow> error + delta" where
  "sub self other = diff other self"

section \<open>A sample world and sample parsers\<close>

text \<open>
  One concrete outside world, on which the results below are instantiated: a web server
  that serves one topology and answers 404 elsewhere, a telnet service that sends a
  topology and closes, one readable file, a JSON decoder known on three texts, and a
  URL parser that rejects two strings with an unmatched bracket.
\<close>

definition sample_topology :: pyval where
  "sample_topology = PDict [(''type'', PStr ''NetworkGraph'')]"

definition sample_text :: string where
  "sample_text = ''{\"type\": \"NetworkGraph\"}''"

text \<open>A static topology of two nodes and one link, its document and its JSON text.\<close>

definition small_parser :: parser where
  "small_parser =
     \<lparr>protocol = PStr ''static'', version = PStr ''1'', revision = PNone,
      metric = PNone, timeout = PNone, verify = PBool True,
      original_data = Some (PDict []),
      graph = Some \<lparr>nodes = [PStr ''a'', PStr ''b''],
                    edges = [(PStr ''a'', PStr ''b'', [(''weight'', PInt 1)])]\<rparr>\<rparr>"

definition small_document :: pyval where
  "small_document =
     PDict [(''type'', PStr ''NetworkGraph''),
            (''protocol'', PStr ''static''),
            (''version'', PStr ''1''),
            (''revision'', PNone),
            (''metric'', PNone),
            (''nodes'', PList [PDict [(''id'', PStr ''a'')], PDict [(''id'', PStr ''b'')]]),
            (''links'', PList [PDict [(''source'', PStr ''a''), (''target'', PStr ''b''),
                                      (''weight'', PInt 1)]])]"

definition small_text :: string where
  "small_text =
     ''{\"type\": \"NetworkGraph\", \"protocol\": \"static\", \"version\": \"1\", '' @
     ''\"revision\": null, \"metric\": null, '' @
     ''\"nodes\": [{\"id\": \"a\"}, {\"id\": \"b\"}], '' @
     ''\"links\": [{\"source\": \"a\", \"target\": \"b\", \"weight\": 1}]}''"

definition sample_urlparse :: "string \<Rightarrow> url option" where
  "sample_urlparse s =
     (if s = ''http://[::1'' \<or> s = ''ftp://[x''
      then None
      else if s = ''http://example.org/topology.json'' \<or> s = ''http://example.org/missing''
      then Some \<lparr>scheme = ''http'', hostname = PStr ''example.org'', port = Inr PNone,
                 geturl = s\<rparr>
      else if s = ''telnet://127.0.0.1:9090''
      then Some \<lparr>scheme = ''telnet'', hostname = PStr ''127.0.0.1'', port = Inr (PInt 9090),
                 geturl = s\<rparr>
      else if s = ''https://down.example.org/''
      then Some \<lparr>scheme = ''https'', hostname = PStr ''down.example.org'', port = Inr PNone,
                 geturl = s\<rparr>
      else if s = ''ftp://host/x''
      then Some \<lparr>scheme = ''ftp'', hostname = PStr ''host'', port = Inr PNone, geturl = s\<rparr>
      else Some \<lparr>scheme = [], hostname = PNone, port = Inr PNone, geturl = s\<rparr>)"

definition sample_world :: world where
  "sample_world =
     \<lparr>urlparse = sample_urlparse,
      requests_get = (\<lambda>u v t.
        if u = ''http://example.org/topology.json''
        then Inr \<lparr>status_code = 200, content = sample_text\<rparr>
        else if u = ''http://example.org/missing''
        then Inr \<lparr>status_code = 404, content = ''Not Found''\<rparr>
        else Inl ''ConnectionError''),
      telnet_open = (\<lambda>h p t.
        if h = PStr ''127.0.0.1'' \<and> p = PInt 9090
        then Inr \<lparr>tn_write = (\<lambda>b. None), tn_read_all = Inr sample_text\<rparr>
        else Inl ''Connection refused''),
      open_read = (\<lambda>path.
        if path = ''./topology.json'' then Inr sample_text
        else Inl ''No such file or directory''),
      bytes_decode = decode_ascii,
      json_loads = (\<lambda>s.
        if s = sample_text then Some sample_topology
        else if s = ''{}'' then Some (PDict [])
        else if s = ''[]'' then Some (PList [])
        else None),
      json_dumps = (\<lambda>d args.
        if d = small_document then Inr small_text
        else Inl ''Object is not JSON serializable'')\<rparr>"

definition sample_parser :: parser where
  "sample_parser =
     \<lparr>protocol = PStr ''olsr'', version = PStr ''0.8'', revision = PNone,
      metric = PStr ''ETX'', timeout = PInt 10, verify = PBool True,
      original_data = Some (PDict []),
      graph = Some \<lparr>nodes = [PStr ''a'', PStr ''b'', PStr ''c''],
                    edges = [(PStr ''a'', PStr ''b'', [(''weight'', PInt 5)]),
                             (PStr ''b'', PStr ''c'', [(''weight'', PInt 2)])]\<rparr>\<rparr>"

definition sample_class :: parser_class where
  "sample_class =
     \<lparr>cls_protocol = PStr ''olsr'', cls_version = PStr ''0.8'', cls_revision = PNone,
      cls_metric = PStr ''ETX'',
      cls_parse = Some (\<lambda>self d. Inr (self\<lparr>graph := Some \<lparr>nodes = [], edges = []\<rparr>\<rparr>))\<rparr>"

text \<open>The parser that \<open>sample_class\<close> builds from an empty dict with two overrides.\<close>

definition sample_built :: parser where
  "sample_built =
     \<lparr>protocol = PStr ''olsr'', version = PStr ''0.9'', revision = PNone,
      metric = PStr ''ETT'', timeout = PInt 5, verify = PBool False,
      original_data = Some (PDict []),
      graph = Some \<lparr>nodes = [], edges = []\<rparr>\<rparr>"

section \<open>Auxiliary facts about the resolver\<close>

lemma io_bind_Inl: "io_bind (tr, Inl e) f = (tr, Inl e)"
  by (simp add: io_bind_def)

lemma io_bind_Inr: "io_bind (tr, Inr x) f = (tr @ fst (f x), snd (f x))"
  by (simp add: io_bind_def split: prod.splits)

lemma to_python_PStr:
  "to_python w self (PStr s) =
     io_bind (to_python_fetch w self s)
       (\<lambda>d. ([JsonLoads d],
              case d of
                PStr t \<Rightarrow> (case json_loads w t of
                             None \<Rightarrow> Inl (ParserJsonError ''Could not decode JSON data'')
                           | Some v \<Rightarrow> Inr v)
              | _ \<Rightarrow> Inl TypeError))"
  by (auto simp add: to_python_def loads_def intro!: arg_cong [where f = "io_bind (to_python_fetch w self s)"]
      split: pyval.splits option.splits)

lemma fetch_urlparse_error:
  assumes "sublist ''://'' s" and "urlparse w s = None"
  shows "to_python_fetch w self s = ([], Inl ValueError)"
  using assms by (simp add: to_python_fetch_def)

lemma to_python_urlparse_error:
  assumes "sublist ''://'' s" and "urlparse w s = None"
  shows "to_python w self (PStr s) = ([], Inl ValueError)"
  unfolding to_python_PStr fetch_urlparse_error [OF assms] by (simp add: io_bind_Inl)

lemma fetch_http:
  assumes "sublist ''://'' s" and "urlparse w s = Some u"
    and "scheme u = ''http'' \<or> scheme u = ''https''"
  shows "to_python_fetch w self s = get_http w self u"
  using assms by (cases "get_http w self u"; cases "snd (get_http w self u)")
    (auto simp add: to_python_fetch_def io_bind_Inl io_bind_Inr)

lemma fetch_telnet:
  assumes "sublist ''://'' s" and "urlparse w s = Some u" and "scheme u = ''telnet''"
  shows "to_python_fetch w self s = get_telnet w self u"
  using assms by (cases "get_telnet w self u")
    (auto simp add: to_python_fetch_def io_bind_Inl io_bind_Inr)

lemma fetch_other_scheme:
  assumes "sublist ''://'' s" and "urlparse w s = Some u" and "scheme u \<noteq> ''http''"
    and "scheme u \<noteq> ''https''" and "scheme u \<noteq> ''telnet''"
  shows "to_python_fetch w self s = ([], Inr (PStr s))"
  using assms by (simp add: to_python_fetch_def io_bind_Inr)


lemma get_telnet_returns_None:
  assumes "get_telnet w self u = (tr, Inr v)"
  shows "v = PNone"
  using assms by (auto simp add: get_telnet_def split: sum.splits option.splits)

lemma telnet_reference_never_resolves:
  assumes "sublist ''://'' s" and "urlparse w s = Some u" and "scheme u = ''telnet''"
  shows "snd (to_python w self (PStr s)) \<noteq> Inr v"
proof (cases "get_telnet w self u")
  case (Pair tr r)
  show ?thesis
  proof (cases r)
    case (Inl e)
    with Pair show ?thesis
      unfolding to_python_PStr fetch_telnet [OF assms] by (simp add: io_bind_Inl)
  next
    case (Inr x)
    with Pair have "x = PNone" by (simp add: get_telnet_returns_None)
    with Pair Inr show ?thesis
      unfolding to_python_PStr fetch_telnet [OF assms] by (simp add: io_bind_Inr)
  qed
qed

section \<open>Auxiliary facts about the serializer, the difference and the constructor\<close>

lemma json_links_acc:
  "json_links es acc =
     (case json_links es [] of Inl e \<Rightarrow> Inl e | Inr ls \<Rightarrow> Inr (acc @ ls))"
proof (induction es arbitrary: acc)
  case Nil
  show ?case by simp
next
  case (Cons link rest)
  show ?case
  proof (cases "map_of (snd (snd link)) ''weight''")
    case None
    then show ?thesis by simp
  next
    case (Some weight)
    show ?thesis
      using Cons.IH [of "acc @ [PDict [(''source'', fst link), (''target'', fst (snd link)), (''weight'', weight)]]"]
        Cons.IH [of "[PDict [(''source'', fst link), (''target'', fst (snd link)), (''weight'', weight)]]"]
      by (simp add: Some split: sum.splits)
  qed
qed

lemma json_links_cases:
  "(json_links es [] = Inl (KeyError ''weight'') \<and> \<not> list_all has_weight es) \<or>
   (\<exists>ls. json_links es [] = Inr ls \<and> list_all2 link_entry es ls)"
proof (induction es)
  case Nil
  show ?case by simp
next
  case (Cons link rest)
  show ?case
  proof (cases "map_of (snd (snd link)) ''weight''")
    case None
    then show ?thesis by (simp add: has_weight_def)
  next
    case (Some weight)
    then have "link_entry link (PDict [(''source'', fst link), (''target'', fst (snd link)), (''weight'', weight)])"
      by (simp add: link_entry_def)
    with Cons Some show ?thesis
      using json_links_acc [of rest "[PDict [(''source'', fst link), (''target'', fst (snd link)), (''weight'', weight)]]"]
      by (auto simp add: has_weight_def)
  qed
qed

lemma link_entry_keys:
  "list_all2 link_entry es ls \<Longrightarrow> list_all (\<lambda>l. dict_keys l = [''source'', ''target'', ''weight'']) ls"
  by (induction es ls rule: list_all2_induct)
    (auto simp add: link_entry_def split: option.splits)

lemma json_valid_metadata:
  assumes "graph self = Some g"
    and "protocol self \<noteq> PNone" and "version self \<noteq> PNone"
    and "metric self \<noteq> PNone \<or> protocol self = PStr ''static''"
  shows "json w self dict args =
     (case json_links (edges g) [] of
        Inl e \<Rightarrow> Inl e
      | Inr links \<Rightarrow>
          (if dict
           then Inr (PDict [(''type'', PStr ''NetworkGraph''),
                            (''protocol'', protocol self),
                            (''version'', version self),
                            (''revision'', revision self),
                            (''metric'', metric self),
                            (''nodes'', PList (map (\<lambda>node. PDict [(''id'', node)]) (nodes g))),
                            (''links'', PList links)])
           else (case json_dumps w
                        (PDict [(''type'', PStr ''NetworkGraph''),
                                (''protocol'', protocol self),
                                (''version'', version self),
                                (''revision'', revision self),
                                (''metric'', metric self),
                                (''nodes'', PList (map (\<lambda>node. PDict [(''id'', node)]) (nodes g))),
                                (''links'', PList links)]) args of
                   Inl e \<Rightarrow> Inl (LibraryError e)
                 | Inr text \<Rightarrow> Inr (PStr text))))"
  using assms by (auto simp add: json_def Let_def split: sum.splits)

lemma unchanged_self: "e \<in> set (edges g) \<Longrightarrow> unchanged g e"
  by (auto simp add: unchanged_def same_pair_def list_ex_iff)

lemma make_diff_self: "make_diff g g = \<lparr>nodes = [], edges = []\<rparr>"
  by (simp add: make_diff_def unchanged_self filter_empty_conv)

text \<open>
  With at most one link per ordered pair, the default of the data model, a link cannot be
  both unchanged and changed, so the exclusion of unchanged links removes nothing.
\<close>

lemma unchanged_excludes_changed:
  assumes "distinct (map (\<lambda>e. (fst e, fst (snd e))) (edges a))" and "unchanged a e"
  shows "\<not> pair_absent a e \<and> \<not> weight_differs a e"
proof -
  from assms(2) obtain e' where e': "e' \<in> set (edges a)" "same_pair e e'"
      "edge_weight e' = edge_weight e"
    by (auto simp add: unchanged_def list_ex_iff)
  from assms(1) have inj: "inj_on (\<lambda>e. (fst e, fst (snd e))) (set (edges a))"
    by (simp add: distinct_map)
  have "\<not> weight_differs a e"
  proof
    assume "weight_differs a e"
    then obtain e'' where e'': "e'' \<in> set (edges a)" "same_pair e e''"
        "edge_weight e'' \<noteq> edge_weight e"
      by (auto simp add: weight_differs_def list_ex_iff)
    from e'(2) e''(2) have "(fst e', fst (snd e')) = (fst e'', fst (snd e''))"
      by (simp add: same_pair_def)
    with inj e'(1) e''(1) have "e' = e''"
      by (auto dest: inj_onD)
    with e'(3) e''(3) show False by simp
  qed
  moreover from e' have "\<not> pair_absent a e"
    by (auto simp add: pair_absent_def list_ex_iff)
  ultimately show ?thesis by simp
qed

lemma make_diff_single_links:
  assumes "distinct (map (\<lambda>e. (fst e, fst (snd e))) (edges a))"
  shows "edges (make_diff a b) = filter (\<lambda>e. pair_absent a e \<or> weight_differs a e) (edges b)"
  using unchanged_excludes_changed [OF assms]
  by (auto simp add: make_diff_def intro: filter_cong)

text \<open>The two worked examples of the specification (section 8).\<close>

lemma make_diff_example_added:
  "make_diff
     \<lparr>nodes = [PInt 1, PInt 2], edges = [(PInt 1, PInt 2, [(''weight'', PInt 5)])]\<rparr>
     \<lparr>nodes = [PInt 1, PInt 2, PInt 3],
      edges = [(PInt 1, PInt 2, [(''weight'', PInt 5)]),
               (PInt 2, PInt 3, [(''weight'', PInt 2)])]\<rparr> =
   \<lparr>nodes = [PInt 3], edges = [(PInt 2, PInt 3, [(''weight'', PInt 2)])]\<rparr> \<and>
   make_diff
     \<lparr>nodes = [PInt 1, PInt 2, PInt 3],
      edges = [(PInt 1, PInt 2, [(''weight'', PInt 5)]),
               (PInt 2, PInt 3, [(''weight'', PInt 2)])]\<rparr>
     \<lparr>nodes = [PInt 1, PInt 2], edges = [(PInt 1, PInt 2, [(''weight'', PInt 5)])]\<rparr> =
   \<lparr>nodes = [], edges = []\<rparr>"
  by (simp add: make_diff_def pair_absent_def weight_differs_def unchanged_def same_pair_def
      edge_weight_def)

lemma make_diff_example_weight:
  "make_diff
     \<lparr>nodes = [PInt 1, PInt 2], edges = [(PInt 1, PInt 2, [(''weight'', PInt 5)])]\<rparr>
     \<lparr>nodes = [PInt 1, PInt 2], edges = [(PInt 1, PInt 2, [(''weight'', PInt 7)])]\<rparr> =
   \<lparr>nodes = [], edges = [(PInt 1, PInt 2, [(''weight'', PInt 7)])]\<rparr> \<and>
   make_diff
     \<lparr>nodes = [PInt 1, PInt 2], edges = [(PInt 1, PInt 2, [(''weight'', PInt 7)])]\<rparr>
     \<lparr>nodes = [PInt 1, PInt 2], edges = [(PInt 1, PInt 2, [(''weight'', PInt 5)])]\<rparr> =
   \<lparr>nodes = [], edges = [(PInt 1, PInt 2, [(''weight'', PInt 5)])]\<rparr>"
  by (simp add: make_diff_def pair_absent_def weight_differs_def unchanged_def same_pair_def
      edge_weight_def)

lemma io_bind_InrD:
  assumes "io_bind m f = (tr, Inr y)"
  shows "\<exists>tr0 x tr1. m = (tr0, Inr x) \<and> f x = (tr1, Inr y)"
  using assms by (cases m; cases "snd m") (auto simp add: io_bind_def split: prod.splits)

lemma init_unfold:
  "init w cls data v r m t vf =
     io_bind
       (to_python w
          \<lparr>protocol = cls_protocol cls,
           version = (if truthy v then v else cls_version cls),
           revision = (if truthy r then r else cls_revision cls),
           metric = (if truthy m then m else cls_metric cls),
           timeout = t, verify = vf, original_data = None, graph = None\<rparr> data)
       (\<lambda>d. case cls_parse cls of
               None \<Rightarrow>
                 ([], Inr \<lparr>protocol = cls_protocol cls,
                          version = (if truthy v then v else cls_version cls),
                          revision = (if truthy r then r else cls_revision cls),
                          metric = (if truthy m then m else cls_metric cls),
                          timeout = t, verify = vf, original_data = Some d, graph = None\<rparr>)
             | Some parse \<Rightarrow>
                 ([], parse \<lparr>protocol = cls_protocol cls,
                          version = (if truthy v then v else cls_version cls),
                          revision = (if truthy r then r else cls_revision cls),
                          metric = (if truthy m then m else cls_metric cls),
                          timeout = t, verify = vf, original_data = Some d, graph = None\<rparr> d))"
  by (simp add: init_def Let_def cong: option.case_cong)

section \<open>Results\<close>

text \<open>
  C1. For a parser that has a graph, \<^verbatim>\<open>json\<close> fails with \<open>NetJsonError\<close> (the schema
  validation error of the specification) exactly when \<open>protocol\<close> is absent, or
  \<open>version\<close> is absent, or \<open>metric\<close> is absent while \<open>protocol\<close> is not \<^verbatim>\<open>static\<close>. So
  an absent metric is rejected for every protocol but \<^verbatim>\<open>static\<close>, and with protocol
  \<^verbatim>\<open>static\<close> and a version the check passes without a metric.
\<close>

theorem json_metadata_check:
  assumes "graph self = Some g"
  shows "(\<exists>msg. json w self dict args = Inl (NetJsonError msg)) \<longleftrightarrow>
           (protocol self = PNone \<or> version self = PNone \<or>
            (metric self = PNone \<and> protocol self \<noteq> PStr ''static''))"
proof (cases "protocol self = PNone \<or> version self = PNone \<or>
            (metric self = PNone \<and> protocol self \<noteq> PStr ''static'')")
  case True
  with assms show ?thesis by (auto simp add: json_def)
next
  case False
  then have ok: "protocol self \<noteq> PNone" "version self \<noteq> PNone"
    "metric self \<noteq> PNone \<or> protocol self = PStr ''static''"
    by auto
  have "json w self dict args \<noteq> Inl (NetJsonError msg)" for msg
    using json_links_cases [of "edges g"]
    unfolding json_valid_metadata [OF assms ok]
    by (auto split: sum.splits)
  with False show ?thesis by blast
qed

theorem json_metadata_check_witness:
  "(\<exists>msg. json sample_world (sample_parser\<lparr>metric := PNone\<rparr>) False [] = Inl (NetJsonError msg)) \<and>
   \<not> (\<exists>msg. json sample_world small_parser False [] = Inl (NetJsonError msg)) \<and>
   (\<exists>msg. json sample_world (small_parser\<lparr>version := PNone\<rparr>) False [] = Inl (NetJsonError msg)) \<and>
   (\<exists>msg. json sample_world (small_parser\<lparr>protocol := PNone\<rparr>) False [] = Inl (NetJsonError msg))"
  using
    json_metadata_check [of "sample_parser\<lparr>metric := PNone\<rparr>" _ sample_world False "[]"]
    json_metadata_check [of small_parser _ sample_world False "[]"]
    json_metadata_check [of "small_parser\<lparr>version := PNone\<rparr>" _ sample_world False "[]"]
    json_metadata_check [of "small_parser\<lparr>protocol := PNone\<rparr>" _ sample_world False "[]"]
  by (simp add: sample_parser_def small_parser_def)

text \<open>
  C2. Diffing a topology against itself, \<^verbatim>\<open>a - a\<close>, gives a delta whose added and
  removed node lists and link lists are all empty.
\<close>

theorem sub_self_empty:
  assumes "graph a = Some g"
  shows "sub a a =
           Inr \<lparr>delta_protocol = protocol a, delta_version = version a,
                delta_revision = revision a, delta_metric = metric a,
                added = \<lparr>nodes = [], edges = []\<rparr>,
                removed = \<lparr>nodes = [], edges = []\<rparr>\<rparr>"
  using assms by (simp add: sub_def diff_def make_diff_self)

theorem sub_self_empty_witness:
  "sub sample_parser sample_parser =
     Inr \<lparr>delta_protocol = PStr ''olsr'', delta_version = PStr ''0.8'',
          delta_revision = PNone, delta_metric = PStr ''ETX'',
          added = \<lparr>nodes = [], edges = []\<rparr>,
          removed = \<lparr>nodes = [], edges = []\<rparr>\<rparr>"
  using sub_self_empty [of sample_parser]
  by (simp add: sample_parser_def)

text \<open>
  C3. A reference with scheme \<^verbatim>\<open>telnet\<close>: the claim is that the text read from the
  connection is returned and JSON-decoded. \<^verbatim>\<open>_get_telnet\<close> has no \<^verbatim>\<open>return\<close>, so
  \<^verbatim>\<open>to_python\<close> hands \<^verbatim>\<open>None\<close> to \<^verbatim>\<open>json.loads\<close>: on the sample world, where the
  telnet service sends a valid topology and closes, resolution ends in a \<open>TypeError\<close>
  after the connection was opened, written to, read and closed.
\<close>

theorem telnet_reference_type_error:
  "to_python sample_world sample_parser (PStr ''telnet://127.0.0.1:9090'') =
     ([TelnetOpen (PStr ''127.0.0.1'') (PInt 9090) (PInt 10), TelnetWrite crlf,
       TelnetReadAll, TelnetClose, JsonLoads PNone],
      Inl TypeError)"
proof -
  have a: "sublist ''://'' ''telnet://127.0.0.1:9090''"
    by (simp add: sublist_code(3))
  have u: "urlparse sample_world ''telnet://127.0.0.1:9090'' =
      Some \<lparr>scheme = ''telnet'', hostname = PStr ''127.0.0.1'', port = Inr (PInt 9090),
            geturl = ''telnet://127.0.0.1:9090''\<rparr>"
    by (simp add: sample_world_def sample_urlparse_def)
  have d: "decode_ascii sample_text = Some sample_text"
    by (simp add: decode_ascii_def sample_text_def)
  have g: "get_telnet sample_world sample_parser
      \<lparr>scheme = ''telnet'', hostname = PStr ''127.0.0.1'', port = Inr (PInt 9090),
       geturl = ''telnet://127.0.0.1:9090''\<rparr> =
     ([TelnetOpen (PStr ''127.0.0.1'') (PInt 9090) (PInt 10), TelnetWrite crlf,
       TelnetReadAll, TelnetClose], Inr PNone)"
    by (simp add: get_telnet_def sample_world_def sample_parser_def d)
  show ?thesis
    unfolding to_python_PStr fetch_telnet [OF a u, simplified] g by (simp add: io_bind_Inr)
qed



text \<open>
  C5, amended. A reference that \<^verbatim>\<open>urlparse\<close> accepts, with scheme \<^verbatim>\<open>http\<close> or
  \<^verbatim>\<open>https\<close>: the first call to the outside is a GET of the URL with the configured
  \<open>verify\<close> flag and \<open>timeout\<close>; a failed request and a status other than 200 both end
  in \<open>TopologyRetrievalError\<close> with no further call; on status 200 \<^verbatim>\<open>_get_http\<close>
  returns the decoded body, which \<^verbatim>\<open>to_python\<close> then decodes as JSON.
\<close>

theorem to_python_http:
  assumes "sublist ''://'' s"
    and "urlparse w s = Some u"
    and "scheme u = ''http'' \<or> scheme u = ''https''"
  shows "(\<exists>tr r. to_python w self (PStr s) =
            (HttpGet (geturl u) (verify self) (timeout self) # tr, r)) \<and>
         (\<forall>e. requests_get w (geturl u) (verify self) (timeout self) = Inl e \<longrightarrow>
            to_python w self (PStr s) =
              ([HttpGet (geturl u) (verify self) (timeout self)],
               Inl (TopologyRetrievalError e))) \<and>
         (\<forall>resp. requests_get w (geturl u) (verify self) (timeout self) = Inr resp \<and>
                 status_code resp \<noteq> 200 \<longrightarrow>
            to_python w self (PStr s) =
              ([HttpGet (geturl u) (verify self) (timeout self)],
               Inl (TopologyRetrievalError
                      (''Expecting HTTP 200 ok, got '' @ str_int (status_code resp))))) \<and>
         (\<forall>resp text.
            requests_get w (geturl u) (verify self) (timeout self) = Inr resp \<and>
            status_code resp = 200 \<and> bytes_decode w (content resp) = Some text \<longrightarrow>
            get_http w self u =
              ([HttpGet (geturl u) (verify self) (timeout self)], Inr (PStr text)) \<and>
            to_python w self (PStr s) =
              ([HttpGet (geturl u) (verify self) (timeout self),
                JsonLoads (PStr text)],
               case json_loads w text of
                 None \<Rightarrow> Inl (ParserJsonError ''Could not decode JSON data'')
               | Some v \<Rightarrow> Inr v))"
  unfolding to_python_PStr fetch_http [OF assms]
  by (auto simp add: get_http_def io_bind_Inl io_bind_Inr io_bind_def split: sum.splits option.splits)

text \<open>
  The claim as first stated, for every \<^verbatim>\<open>http\<close> reference, fails on a reference that
  \<^verbatim>\<open>urlparse\<close> rejects: the \<^verbatim>\<open>ValueError\<close> of \<^verbatim>\<open>urlparse\<close> leaves \<^verbatim>\<open>to_python\<close> before any
  request is made, and it is not a \<open>TopologyRetrievalError\<close>.
\<close>

theorem to_python_http_counterexample:
  "to_python sample_world sample_parser (PStr ''http://[::1'') = ([], Inl ValueError) \<and>
   prefix ''http://'' ''http://[::1''"
proof -
  have a: "sublist ''://'' ''http://[::1''"
    by (simp add: sublist_code(3))
  have u: "urlparse sample_world ''http://[::1'' = None"
    by (simp add: sample_world_def sample_urlparse_def)
  show ?thesis
    using to_python_urlparse_error [OF a u, of sample_parser] by simp
qed

theorem to_python_http_witness:
  "to_python sample_world sample_parser (PStr ''http://example.org/missing'') =
     ([HttpGet ''http://example.org/missing'' (PBool True) (PInt 10)],
      Inl (TopologyRetrievalError ''Expecting HTTP 200 ok, got 404'')) \<and>
   to_python sample_world sample_parser (PStr ''https://down.example.org/'') =
     ([HttpGet ''https://down.example.org/'' (PBool True) (PInt 10)],
      Inl (TopologyRetrievalError ''ConnectionError'')) \<and>
   to_python sample_world sample_parser (PStr ''http://example.org/topology.json'') =
     ([HttpGet ''http://example.org/topology.json'' (PBool True) (PInt 10),
       JsonLoads (PStr sample_text)],
      Inr sample_topology)"
proof -
  have a: "sublist ''://'' ''http://example.org/missing''"
    and b: "sublist ''://'' ''https://down.example.org/''"
    and c: "sublist ''://'' ''http://example.org/topology.json''"
    by (simp_all add: sublist_code(3))
  have a': "urlparse sample_world ''http://example.org/missing'' =
      Some \<lparr>scheme = ''http'', hostname = PStr ''example.org'', port = Inr PNone,
            geturl = ''http://example.org/missing''\<rparr>"
    and b': "urlparse sample_world ''https://down.example.org/'' =
      Some \<lparr>scheme = ''https'', hostname = PStr ''down.example.org'', port = Inr PNone,
            geturl = ''https://down.example.org/''\<rparr>"
    and c': "urlparse sample_world ''http://example.org/topology.json'' =
      Some \<lparr>scheme = ''http'', hostname = PStr ''example.org'', port = Inr PNone,
            geturl = ''http://example.org/topology.json''\<rparr>"
    by (simp_all add: sample_world_def sample_urlparse_def)
  have d: "decode_ascii sample_text = Some sample_text"
    by (simp add: decode_ascii_def sample_text_def)
  show ?thesis
    using to_python_http [OF a a', of sample_parser]
      to_python_http [OF b b', of sample_parser]
      to_python_http [OF c c', of sample_parser] d
    by (simp add: sample_world_def sample_parser_def str_int_def
        str_nat.simps sample_text_def)
qed

text \<open>
  C6. A data reference that is neither a dict nor a string (an integer, a list, ...)
  fails with \<open>ParserError\<close>, and no call to the outside (no fetch, no JSON decoding)
  is made.
\<close>

theorem to_python_other_type:
  assumes "\<not> isinstance_dict data" and "\<not> isinstance_string data"
  shows "to_python w self data =
           ([], Inl (ParserError ''Could not find valid data to parse''))"
  using assms by (cases data) (simp_all add: to_python_def)

theorem to_python_other_type_witness:
  "to_python sample_world sample_parser (PInt 7) =
     ([], Inl (ParserError ''Could not find valid data to parse'')) \<and>
   to_python sample_world sample_parser (PList [PInt 1, PInt 2]) =
     ([], Inl (ParserError ''Could not find valid data to parse''))"
  using to_python_other_type [of "PInt 7" sample_world sample_parser]
    to_python_other_type [of "PList [PInt 1, PInt 2]" sample_world sample_parser]
  by simp

text \<open>
  C7. For a parser with a graph and valid metadata, the document that \<^verbatim>\<open>json(dict=True)\<close>
  returns has the fields \<^verbatim>\<open>type\<close> (with value \<^verbatim>\<open>NetworkGraph\<close>), \<^verbatim>\<open>protocol\<close>,
  \<^verbatim>\<open>version\<close>, \<^verbatim>\<open>revision\<close>, \<^verbatim>\<open>metric\<close>, \<^verbatim>\<open>nodes\<close>, \<^verbatim>\<open>links\<close> in this order, with one
  link entry per edge, in the order of the edges, whose fields are \<^verbatim>\<open>source\<close>,
  \<^verbatim>\<open>target\<close>, \<^verbatim>\<open>weight\<close> in this order. The only other outcome is a \<open>KeyError\<close>, when
  an edge of the graph carries no weight, and then there is no document.
\<close>

theorem json_field_order:
  assumes "graph self = Some g"
    and "protocol self \<noteq> PNone" and "version self \<noteq> PNone"
    and "metric self \<noteq> PNone \<or> protocol self = PStr ''static''"
  shows "(json w self True args = Inl (KeyError ''weight'') \<and> \<not> list_all has_weight (edges g)) \<or>
         (\<exists>links.
            json w self True args =
              Inr (PDict [(''type'', PStr ''NetworkGraph''),
                          (''protocol'', protocol self),
                          (''version'', version self),
                          (''revision'', revision self),
                          (''metric'', metric self),
                          (''nodes'', PList (map (\<lambda>node. PDict [(''id'', node)]) (nodes g))),
                          (''links'', PList links)]) \<and>
            list_all2 link_entry (edges g) links \<and>
            list_all (\<lambda>l. dict_keys l = [''source'', ''target'', ''weight'']) links)"
  using json_links_cases [of "edges g"]
  unfolding json_valid_metadata [OF assms]
  by (auto dest: link_entry_keys)

theorem json_field_order_witness:
  "json sample_world sample_parser True [] =
     Inr (PDict [(''type'', PStr ''NetworkGraph''),
                 (''protocol'', PStr ''olsr''),
                 (''version'', PStr ''0.8''),
                 (''revision'', PNone),
                 (''metric'', PStr ''ETX''),
                 (''nodes'', PList [PDict [(''id'', PStr ''a'')], PDict [(''id'', PStr ''b'')],
                                    PDict [(''id'', PStr ''c'')]]),
                 (''links'', PList [PDict [(''source'', PStr ''a''), (''target'', PStr ''b''),
                                           (''weight'', PInt 5)],
                                    PDict [(''source'', PStr ''b''), (''target'', PStr ''c''),
                                           (''weight'', PInt 2)]])])"
  using json_field_order [of sample_parser _ sample_world "[]"]
  by (auto simp add: sample_parser_def link_entry_def has_weight_def list_all2_Cons1)

text \<open>
  C8. The text form \<^verbatim>\<open>json(dict=False, **args)\<close> is \<^verbatim>\<open>json.dumps\<close>, with the same
  \<^verbatim>\<open>args\<close>, of the document that \<^verbatim>\<open>json(dict=True)\<close> returns, and fails as the
  structured form does when that fails.
\<close>

theorem json_text_of_document:
  "json w self False args =
     (case json w self True args of
        Inl e \<Rightarrow> Inl e
      | Inr data \<Rightarrow>
          (case json_dumps w data args of
             Inl e \<Rightarrow> Inl (LibraryError e)
           | Inr text \<Rightarrow> Inr (PStr text)))"
proof (cases "graph self")
  case None
  then show ?thesis by (simp add: json_def)
next
  case (Some g)
  show ?thesis
  proof (cases "protocol self = PNone \<or> version self = PNone \<or>
            (metric self = PNone \<and> protocol self \<noteq> PStr ''static'')")
    case True
    with Some show ?thesis by (auto simp add: json_def)
  next
    case False
    then have ok: "protocol self \<noteq> PNone" "version self \<noteq> PNone"
      "metric self \<noteq> PNone \<or> protocol self = PStr ''static''"
      by auto
    show ?thesis
      unfolding json_valid_metadata [OF Some ok]
      by (simp split: sum.splits)
  qed
qed

theorem json_text_of_document_witness:
  "json sample_world small_parser False [] = Inr (PStr small_text)"
proof -
  have d: "json sample_world small_parser True [] = Inr small_document"
    by (simp add: json_def small_parser_def small_document_def)
  have t: "json_dumps sample_world small_document [] = Inr small_text"
    by (simp add: sample_world_def)
  show ?thesis
    using json_text_of_document [of sample_world small_parser "[]"] by (simp add: d t)
qed

text \<open>
  C9, amended. In a construction that completes, an override for \<^verbatim>\<open>version\<close>,
  \<^verbatim>\<open>revision\<close> or \<^verbatim>\<open>metric\<close> replaces the class-level default when it is true in
  Python's sense (a non-empty string), and the default stays when it is omitted
  (\<^verbatim>\<open>None\<close>) or empty; this for \<^verbatim>\<open>BaseParser\<close> itself and for every subclass whose
  \<^verbatim>\<open>parse\<close> leaves the three attributes as they are.
\<close>

theorem init_overrides:
  assumes "init w cls data v r m t vf = (tr, Inr p)"
    and "\<And>parse q d q'. cls_parse cls = Some parse \<Longrightarrow> parse q d = Inr q' \<Longrightarrow>
           version q' = version q \<and> revision q' = revision q \<and> metric q' = metric q"
  shows "version p = (if truthy v then v else cls_version cls) \<and>
         revision p = (if truthy r then r else cls_revision cls) \<and>
         metric p = (if truthy m then m else cls_metric cls)"
proof -
  define configured where "configured od =
     \<lparr>protocol = cls_protocol cls,
      version = (if truthy v then v else cls_version cls),
      revision = (if truthy r then r else cls_revision cls),
      metric = (if truthy m then m else cls_metric cls),
      timeout = t, verify = vf, original_data = od, graph = None\<rparr>" for od
  define finish where "finish d =
     (case cls_parse cls of
        None \<Rightarrow> ([], Inr (configured (Some d)))
      | Some parse \<Rightarrow> ([] :: event list, parse (configured (Some d)) d))" for d
  have "init w cls data v r m t vf = io_bind (to_python w (configured None) data) finish"
    unfolding init_unfold configured_def finish_def ..
  with assms(1) have "io_bind (to_python w (configured None) data) finish = (tr, Inr p)"
    by simp
  then obtain d tr1 where c: "finish d = (tr1, Inr p)"
    by (blast dest: io_bind_InrD)
  show ?thesis
  proof (cases "cls_parse cls")
    case None
    with c have "p = configured (Some d)" by (simp add: finish_def)
    then show ?thesis by (simp add: configured_def)
  next
    case (Some parse)
    with c have "parse (configured (Some d)) d = Inr p" by (simp add: finish_def)
    from assms(2) [OF Some this] show ?thesis by (simp add: configured_def)
  qed
qed

text \<open>
  The claim as first stated, for all strings including the empty one, fails: with
  empty overrides the defaults \<^verbatim>\<open>0.8\<close> and \<^verbatim>\<open>ETX\<close> of the class stay.
\<close>

theorem init_empty_override_counterexample:
  "init sample_world sample_class (PDict []) (PStr []) (PStr []) (PStr []) PNone (PBool True) =
     ([], Inr \<lparr>protocol = PStr ''olsr'', version = PStr ''0.8'', revision = PNone,
              metric = PStr ''ETX'', timeout = PNone, verify = PBool True,
              original_data = Some (PDict []),
              graph = Some \<lparr>nodes = [], edges = []\<rparr>\<rparr>) \<and>
   PStr ''0.8'' \<noteq> PStr [] \<and> PStr ''ETX'' \<noteq> PStr []"
  by (simp add: init_def to_python_def io_bind_def sample_class_def)

theorem init_overrides_witness:
  "init sample_world sample_class (PDict []) (PStr ''0.9'') PNone (PStr ''ETT'') (PInt 5)
     (PBool False) = ([], Inr sample_built) \<and>
   version sample_built = PStr ''0.9'' \<and>
   revision sample_built = cls_revision sample_class \<and>
   metric sample_built = PStr ''ETT''"
proof -
  have built: "init sample_world sample_class (PDict []) (PStr ''0.9'') PNone (PStr ''ETT'')
      (PInt 5) (PBool False) = ([], Inr sample_built)"
    by (simp add: init_def to_python_def io_bind_def sample_class_def sample_built_def)
  have kept: "version q' = version q \<and> revision q' = revision q \<and> metric q' = metric q"
    if "cls_parse sample_class = Some parse" and "parse q d = Inr q'" for parse q d q'
    using that by (auto simp add: sample_class_def)
  show ?thesis
    using init_overrides [OF built kept] built by simp
qed

text \<open>
  C10, amended. A string containing \<^verbatim>\<open>://\<close> that \<^verbatim>\<open>urlparse\<close> accepts, with a scheme
  that is none of \<^verbatim>\<open>http\<close>, \<^verbatim>\<open>https\<close>, \<^verbatim>\<open>telnet\<close>: the only call is the JSON decoding of
  the original string, so the result is \<open>ParserJsonError\<close> unless the whole string is
  valid JSON.
\<close>

theorem to_python_other_scheme:
  assumes "sublist ''://'' s"
    and "urlparse w s = Some u"
    and "scheme u \<noteq> ''http''"
    and "scheme u \<noteq> ''https''"
    and "scheme u \<noteq> ''telnet''"
  shows "to_python w self (PStr s) =
           ([JsonLoads (PStr s)],
            case json_loads w s of
              None \<Rightarrow> Inl (ParserJsonError ''Could not decode JSON data'')
            | Some v \<Rightarrow> Inr v)"
  unfolding to_python_PStr fetch_other_scheme [OF assms]
  by (simp add: io_bind_Inr)

text \<open>
  The claim as first stated, for every string containing \<^verbatim>\<open>://\<close>, fails on one that
  \<^verbatim>\<open>urlparse\<close> rejects: the string is not valid JSON, yet it is never handed to
  \<^verbatim>\<open>json.loads\<close>, and the error is the \<^verbatim>\<open>ValueError\<close> of \<^verbatim>\<open>urlparse\<close>, not a
  \<open>ParserJsonError\<close>.
\<close>

theorem to_python_other_scheme_counterexample:
  "to_python sample_world sample_parser (PStr ''ftp://[x'') = ([], Inl ValueError) \<and>
   sublist ''://'' ''ftp://[x'' \<and>
   json_loads sample_world ''ftp://[x'' = None"
proof -
  have a: "sublist ''://'' ''ftp://[x''"
    by (simp add: sublist_code(3))
  have u: "urlparse sample_world ''ftp://[x'' = None"
    by (simp add: sample_world_def sample_urlparse_def)
  have j: "json_loads sample_world ''ftp://[x'' = None"
    by (simp add: sample_world_def sample_text_def)
  show ?thesis
    using to_python_urlparse_error [OF a u, of sample_parser] a j by simp
qed

theorem to_python_other_scheme_witness:
  "to_python sample_world sample_parser (PStr ''ftp://host/x'') =
     ([JsonLoads (PStr ''ftp://host/x'')],
      Inl (ParserJsonError ''Could not decode JSON data''))"
proof -
  have a: "sublist ''://'' ''ftp://host/x''"
    by (simp add: sublist_code(3))
  have u: "urlparse sample_world ''ftp://host/x'' =
      Some \<lparr>scheme = ''ftp'', hostname = PStr ''host'', port = Inr PNone,
            geturl = ''ftp://host/x''\<rparr>"
    by (simp add: sample_world_def sample_urlparse_def)
  have j: "json_loads sample_world ''ftp://host/x'' = None"
    by (simp add: sample_world_def sample_text_def)
  show ?thesis
    using to_python_other_scheme [OF a u] j by simp
qed

end
